theory Spec2Isabelle
  imports Main "HOL-Library.Char_ord" "HOL-Library.List_Lexorder" "HOL-Library.Multiset"
begin

section \<open>The todo backend of src/index.js\<close>

text \<open>
  The program is a GraphQL server with one record type, \<open>Todo\<close>, one query
  (\<open>todosList\<close>) and four mutations (\<open>create\<close>, \<open>delete\<close>, \<open>update\<close>,
  \<open>complete\<close>), each of which makes one call to a Mongoose model inside
  \<^verbatim>\<open>try { ... } catch (e) { throw new ApolloError(e.message) }\<close>, and a custom scalar
  \<open>Date\<close>.

  The resolvers and the scalar are translated from the source. The Mongoose model
  \<open>Todo\<close> (a library, not part of the source) is modelled as a collection held in
  memory: a list of documents in the order of their insertion. Every storage call
  returns either the message of the error it rejects with (\<open>Inl\<close>) or its result
  (\<open>Inr\<close>), so that the \<^verbatim>\<open>catch\<close> of each resolver is a branch of its model: a
  call is rejected when an identifier cannot be cast to the schema, when the options
  of a query are no object or hold an unknown sort direction, and when a document to
  save holds an invalid date or an identifier already in use.
\<close>

subsection \<open>Values\<close>

text \<open>
  A nullable GraphQL argument as the resolver's destructuring pattern sees it: absent
  from the arguments object (\<open>Undefined\<close>), given as \<open>null\<close>, or given a value. A
  default of the pattern (\<^verbatim>\<open>priority = 1\<close>) replaces \<open>undefined\<close> only;
  \<open>default\<close> yields the resulting JavaScript value, \<open>None\<close> standing for \<open>null\<close>.
\<close>

datatype 'a arg = Undefined | Null | Val 'a

fun default :: "'a arg \<Rightarrow> 'a \<Rightarrow> 'a option" where
  "default Undefined d = Some d"
| "default Null d = None"
| "default (Val v) d = Some v"

text \<open>
  A JavaScript \<open>Date\<close> object: a time value in milliseconds since the epoch, or the
  invalid date, whose time value is \<open>NaN\<close>.
\<close>

datatype jsdate = Date int | InvalidDate

text \<open>\<open>ApolloError\<close> carries the message of the error it wraps.\<close>

datatype apollo_error = ApolloError string

subsection \<open>The schema\<close>

text \<open>
  \<^verbatim>\<open>todoSchema = { description: String, createdAt: Date, completed: Boolean, priority: Number }\<close>,
  with the identifier \<open>_id\<close> that the storage layer adds (\<open>todo_id\<close> here, since a name
  cannot begin with an underscore). The schema does not declare \<open>_id\<close>, so it is an
  ObjectId: twelve bytes, held here as their 24 lower-case hexadecimal digits, the
  string that the GraphQL field \<open>_id\<close> shows. A field that holds \<open>null\<close> is
  \<open>None\<close>. The GraphQL type \<open>Int\<close> admits integers only, so a priority is an
  \<open>int\<close>; a stored date is a valid time value.
\<close>

record todo =
  todo_id :: string
  description :: string
  createdAt :: "int option"
  completed :: "bool option"
  priority :: "int option"

type_synonym collection = "todo list"

subsection \<open>The storage calls\<close>

text \<open>
  The filter \<open>{ _id: id }\<close> of a storage call is cast to the schema before the call
  runs, and the resolvers pass the argument \<open>id\<close>, any string, as it is. A string of
  24 hexadecimal digits, in either case, is the identifier with those digits; a string
  of 12 characters is the identifier with those bytes; for every other string the cast
  fails and the call is rejected with the message of the cast error. Stored
  identifiers are therefore matched by the bytes they denote, not by spelling.
\<close>

definition is_hex_digit :: "char \<Rightarrow> bool" where
  "is_hex_digit c =
     ((CHR ''0'' \<le> c \<and> c \<le> CHR ''9'') \<or> (CHR ''a'' \<le> c \<and> c \<le> CHR ''f'')
      \<or> (CHR ''A'' \<le> c \<and> c \<le> CHR ''F''))"

definition hex_value :: "char \<Rightarrow> nat" where
  "hex_value c =
     (if c \<le> CHR ''9'' then of_char c - 48
      else if CHR ''a'' \<le> c then of_char c - 87
      else of_char c - 55)"

definition hex_digit :: "nat \<Rightarrow> char" where
  "hex_digit n = ''0123456789abcdef'' ! (n mod 16)"

definition toHex :: "char \<Rightarrow> string" where
  "toHex c = [hex_digit (of_char c div 16), hex_digit (of_char c)]"

definition castObjectId :: "string \<Rightarrow> string + string" where
  "castObjectId s =
     (if length s = 24 \<and> list_all is_hex_digit s
      then Inr (map (\<lambda>c. hex_digit (hex_value c)) s)
      else if length s = 12 then Inr (concat (map toHex s))
      else Inl (''Cast to ObjectId failed for value '' @ [CHR 0x22] @ s @ [CHR 0x22]
                @ '' at path '' @ [CHR 0x22] @ ''_id'' @ [CHR 0x22]))"

text \<open>
  Modelled from the spec: the update object of find-and-update-by-id. The fields it
  names are set, the others are left as they are. The source passes
  \<^verbatim>\<open>{ description, priority: validPriority }\<close> and \<^verbatim>\<open>{ completed: true }\<close>.
\<close>

record update_doc =
  set_description :: "string option"
  set_completed :: "bool option"
  set_priority :: "int option"

definition apply_update :: "update_doc \<Rightarrow> todo \<Rightarrow> todo" where
  "apply_update u t =
     t\<lparr>description := (case set_description u of None \<Rightarrow> description t | Some d \<Rightarrow> d),
       completed := (case set_completed u of None \<Rightarrow> completed t | Some c \<Rightarrow> Some c),
       priority := (case set_priority u of None \<Rightarrow> priority t | Some p \<Rightarrow> Some p)\<rparr>"

text \<open>
  Modelled from the spec: the storage call find-and-update-by-id
  (\<open>Todo.findOneAndUpdate({ _id: id }, update, { new: true })\<close> of the Mongoose
  library). The first document whose identifier equals \<open>id\<close> is updated in place and
  returned as updated; when no document matches, the result is \<open>null\<close> and nothing
  is written. The identifier is the cast of the string passed; when the cast fails,
  so does the call.
\<close>

fun update_first :: "string \<Rightarrow> update_doc \<Rightarrow> todo list \<Rightarrow> todo option \<times> todo list" where
  "update_first i u [] = (None, [])"
| "update_first i u (t # ts) =
     (if todo_id t = i then (Some (apply_update u t), apply_update u t # ts)
      else (case update_first i u ts of (r, ts') \<Rightarrow> (r, t # ts')))"

definition findOneAndUpdate ::
  "collection \<Rightarrow> string \<Rightarrow> update_doc \<Rightarrow> string + (todo option \<times> collection)" where
  "findOneAndUpdate coll i u =
     (case castObjectId i of
        Inl e \<Rightarrow> Inl e
      | Inr oid \<Rightarrow> Inr (update_first oid u coll))"

text \<open>
  Modelled from the spec: the storage call delete-by-id
  (\<open>Todo.deleteOne({ _id: id })\<close>), which removes the first document whose
  identifier equals \<open>id\<close> and reports the number of documents it removed (0 or 1) as
  \<open>deletedCount\<close>. The identifier is the cast of the string passed; when the cast
  fails, so does the call.
\<close>

fun remove_first :: "string \<Rightarrow> todo list \<Rightarrow> nat \<times> todo list" where
  "remove_first i [] = (0, [])"
| "remove_first i (t # ts) =
     (if todo_id t = i then (1, ts)
      else (case remove_first i ts of (n, ts') \<Rightarrow> (n, t # ts')))"

definition deleteOne :: "collection \<Rightarrow> string \<Rightarrow> string + (nat \<times> collection)" where
  "deleteOne coll i =
     (case castObjectId i of
        Inl e \<Rightarrow> Inl e
      | Inr oid \<Rightarrow> Inr (remove_first oid coll))"

text \<open>
  Modelled from the spec: the storage call insert-one
  (\<open>new Todo({ description, createdAt, completed, priority }).save()\<close>). The
  document is cast to the schema, where an invalid date is refused; the identifier
  \<open>oid\<close> that the library generates for the new document is an input of the model, and
  the store refuses an identifier it already holds (the constraint violation of the
  spec). The saved document is returned and is the last one of the collection.
\<close>

definition castDate :: "jsdate option \<Rightarrow> string + int option" where
  "castDate d =
     (case d of
        None \<Rightarrow> Inr None
      | Some (Date ms) \<Rightarrow> Inr (Some ms)
      | Some InvalidDate \<Rightarrow> Inl ''Todo validation failed: createdAt: Cast to Date failed'')"

definition save ::
  "collection \<Rightarrow> string \<Rightarrow> string \<Rightarrow> jsdate option \<Rightarrow> bool option \<Rightarrow> int option
     \<Rightarrow> string + (todo \<times> collection)" where
  "save coll oid d c b p =
     (case castDate c of
        Inl e \<Rightarrow> Inl e
      | Inr c' \<Rightarrow>
          (let doc = \<lparr>todo_id = oid, description = d, createdAt = c', completed = b,
                      priority = p\<rparr>
           in if oid \<in> set (map todo_id coll) then Inl ''E11000 duplicate key error''
              else Inr (doc, coll @ [doc])))"

text \<open>
  Modelled from the spec: the order of the store on field values, by which a sort
  direction is read: \<open>null\<close> before numbers, numbers before
  strings, then identifiers, booleans (\<open>false\<close> before \<open>true\<close>) and dates; two values
  of one type by their own order, strings and identifiers byte by byte.
\<close>

datatype bson = BNull | BNumber int | BString string | BObjectId string | BBoolean bool | BDate int

fun bson_rank :: "bson \<Rightarrow> nat" where
  "bson_rank BNull = 0"
| "bson_rank (BNumber n) = 1"
| "bson_rank (BString s) = 2"
| "bson_rank (BObjectId s) = 3"
| "bson_rank (BBoolean b) = 4"
| "bson_rank (BDate d) = 5"

fun bson_le :: "bson \<Rightarrow> bson \<Rightarrow> bool" where
  "bson_le (BNumber a) (BNumber b) = (a \<le> b)"
| "bson_le (BString a) (BString b) = (a \<le> b)"
| "bson_le (BObjectId a) (BObjectId b) = (a \<le> b)"
| "bson_le (BBoolean a) (BBoolean b) = (if a then b else True)"
| "bson_le (BDate a) (BDate b) = (a \<le> b)"
| "bson_le x y = (bson_rank x \<le> bson_rank y)"

text \<open>
  Modelled from the spec: the value a document holds under the field name of a sort
  option. A name that is no field of the schema holds nothing in any document.
\<close>

definition field_value :: "string \<Rightarrow> todo \<Rightarrow> bson" where
  "field_value f t =
     (if f = ''_id'' then BObjectId (todo_id t)
      else if f = ''description'' then BString (description t)
      else if f = ''createdAt'' then (case createdAt t of None \<Rightarrow> BNull | Some d \<Rightarrow> BDate d)
      else if f = ''completed'' then (case completed t of None \<Rightarrow> BNull | Some b \<Rightarrow> BBoolean b)
      else if f = ''priority'' then (case priority t of None \<Rightarrow> BNull | Some n \<Rightarrow> BNumber n)
      else BNull)"

text \<open>
  Modelled from the spec: the sort of the store, as a stable insertion sort under a
  given order.
\<close>

fun insort_by :: "('a \<Rightarrow> 'a \<Rightarrow> bool) \<Rightarrow> 'a \<Rightarrow> 'a list \<Rightarrow> 'a list" where
  "insort_by le x [] = [x]"
| "insort_by le x (y # ys) = (if le x y then x # y # ys else y # insort_by le x ys)"

definition sort_by :: "('a \<Rightarrow> 'a \<Rightarrow> bool) \<Rightarrow> 'a list \<Rightarrow> 'a list" where
  "sort_by le xs = foldr (insort_by le) xs []"

text \<open>
  Modelled from the spec: the directions of a sort, those the schema documents for
  \<open>order\<close> (ASC or DESC). Any other value is outside that interface; in the model
  the store rejects it.
\<close>

datatype direction = Ascending | Descending

definition sort_direction :: "string option \<Rightarrow> direction option" where
  "sort_direction ord =
     (if ord = Some ''ASC'' then Some Ascending
      else if ord = Some ''DESC'' then Some Descending
      else None)"

definition before :: "string \<Rightarrow> direction \<Rightarrow> todo \<Rightarrow> todo \<Rightarrow> bool" where
  "before f dir a b =
     (case dir of
        Ascending \<Rightarrow> bson_le (field_value f a) (field_value f b)
      | Descending \<Rightarrow> bson_le (field_value f b) (field_value f a))"

text \<open>
  Modelled from the spec: the storage call find-with-filter-and-sort
  (\<open>Todo.find(filter, null, sort)\<close>). The filter is \<open>{}\<close> (\<open>None\<close>) or
  \<open>{ completed: c }\<close>, which a document matches when its field equals \<open>c\<close>. The
  third argument is what \<open>sortBy && { sort: { [sortBy]: order } }\<close> evaluates to:
  nothing (\<open>undefined\<close> or \<open>null\<close>), a string, which is no object and which the
  call refuses, or the object with the sort. Without options the matching documents
  come in the order of the collection.
\<close>

datatype find_options = NoOptions | StringOptions string | SortOptions string "string option"

definition matches :: "bool option \<Rightarrow> todo \<Rightarrow> bool" where
  "matches flt t = (case flt of None \<Rightarrow> True | Some c \<Rightarrow> completed t = Some c)"

definition find_docs ::
  "collection \<Rightarrow> bool option \<Rightarrow> find_options \<Rightarrow> string + todo list" where
  "find_docs coll flt opts =
     (case opts of
        NoOptions \<Rightarrow> Inr (filter (matches flt) coll)
      | StringOptions s \<Rightarrow>
          Inl (''Options must be an object, got '' @ [CHR 0x22] @ s @ [CHR 0x22])
      | SortOptions f ord \<Rightarrow>
          (case sort_direction ord of
             None \<Rightarrow> Inl ''Invalid sort value''
           | Some dir \<Rightarrow> Inr (sort_by (before f dir) (filter (matches flt) coll))))"

text \<open>
  Modelled from the spec: the document that holds a given identifier (an ObjectId, the
  result of a cast), as a read of the collection by identifier finds it.
\<close>

definition findById :: "collection \<Rightarrow> string \<Rightarrow> todo option" where
  "findById coll i = find (\<lambda>t. todo_id t = i) coll"

subsection \<open>The resolvers\<close>

text \<open>
  \<^verbatim>\<open>update: async (_, { id, description, priority = 1 }) => {
    const validPriority = priority > 0 ? priority : 1;
    try { return await Todo.findOneAndUpdate({ _id: id },
            { description, priority: validPriority }, { new: true }); }
    catch (e) { throw new ApolloError(e.message); } }\<close>
  The comparison \<open>null > 0\<close> is false in JavaScript.
\<close>

definition validPriority :: "int option \<Rightarrow> int" where
  "validPriority p = (case p of Some n \<Rightarrow> (if n > 0 then n else 1) | None \<Rightarrow> 1)"

definition update ::
  "collection \<Rightarrow> string \<Rightarrow> string \<Rightarrow> int arg \<Rightarrow> apollo_error + (todo option \<times> collection)" where
  "update coll i d p =
     (case findOneAndUpdate coll i
             \<lparr>set_description = Some d, set_completed = None,
              set_priority = Some (validPriority (default p 1))\<rparr> of
        Inl e \<Rightarrow> Inl (ApolloError e)
      | Inr r \<Rightarrow> Inr r)"

text \<open>
  \<^verbatim>\<open>complete: async (_, { id }) => {
    try { return await Todo.findOneAndUpdate({ _id: id }, { completed: true }, { new: true }); }
    catch (e) { throw new ApolloError(e.message); } }\<close>
\<close>

definition complete ::
  "collection \<Rightarrow> string \<Rightarrow> apollo_error + (todo option \<times> collection)" where
  "complete coll i =
     (case findOneAndUpdate coll i
             \<lparr>set_description = None, set_completed = Some True, set_priority = None\<rparr> of
        Inl e \<Rightarrow> Inl (ApolloError e)
      | Inr r \<Rightarrow> Inr r)"

text \<open>
  \<^verbatim>\<open>delete: async (_, { id }) => {
    try { const success = await Todo.deleteOne({ _id: id });
          return Boolean(success.deletedCount); }
    catch (e) { throw new ApolloError(e.message); } }\<close>
\<close>

definition Boolean :: "nat \<Rightarrow> bool" where
  "Boolean n = (n \<noteq> 0)"

definition delete :: "collection \<Rightarrow> string \<Rightarrow> apollo_error + (bool \<times> collection)" where
  "delete coll i =
     (case deleteOne coll i of
        Inl e \<Rightarrow> Inl (ApolloError e)
      | Inr (deletedCount, coll') \<Rightarrow> Inr (Boolean deletedCount, coll'))"

text \<open>
  \<^verbatim>\<open>create: async (_, { description, createdAt = new Date(), completed = false,
                        priority = 1 }) => {
    try { return await new Todo({ description, createdAt, completed, priority }).save(); }
    catch (e) { throw new ApolloError(e.message); } }\<close>
  The time \<open>now\<close> at which \<open>new Date()\<close> is evaluated and the identifier \<open>oid\<close> of
  the new document are inputs.
\<close>

definition create ::
  "collection \<Rightarrow> int \<Rightarrow> string \<Rightarrow> string \<Rightarrow> jsdate arg \<Rightarrow> bool arg \<Rightarrow> int arg
     \<Rightarrow> apollo_error + (todo \<times> collection)" where
  "create coll now oid d c b p =
     (case save coll oid d (default c (Date now)) (default b False) (default p 1) of
        Inl e \<Rightarrow> Inl (ApolloError e)
      | Inr r \<Rightarrow> Inr r)"

text \<open>
  \<^verbatim>\<open>todosList: async (_, { sortBy, order = 'ASC', completed = null }) => {
    const filter = completed !== null ? { completed: completed } : {};
    const sort = sortBy && { sort: { [sortBy]: order } };
    try { return await Todo.find(filter, null, sort); }
    catch (e) { throw new ApolloError(e.message); } }\<close>
  The default \<open>null\<close> of \<open>completed\<close> and an explicit \<open>null\<close> both give the
  filter \<open>{}\<close>. \<open>sortBy && ...\<close> is \<open>sortBy\<close> itself when that is falsy:
  \<open>undefined\<close> or \<open>null\<close>, and then no options reach the store, or the empty
  string, and then that string is the options argument of \<open>Todo.find\<close>.
\<close>

definition sort_option :: "string arg \<Rightarrow> string option \<Rightarrow> find_options" where
  "sort_option sortBy ord =
     (case sortBy of
        Undefined \<Rightarrow> NoOptions
      | Null \<Rightarrow> NoOptions
      | Val f \<Rightarrow> (if f = [] then StringOptions f else SortOptions f ord))"

definition todosList ::
  "collection \<Rightarrow> string arg \<Rightarrow> string arg \<Rightarrow> bool arg \<Rightarrow> apollo_error + todo list" where
  "todosList coll sortBy ord c =
     (let flt = (case c of Val b \<Rightarrow> Some b | _ \<Rightarrow> None);
          srt = sort_option sortBy (default ord ''ASC'')
      in case find_docs coll flt srt of
           Inl e \<Rightarrow> Inl (ApolloError e)
         | Inr r \<Rightarrow> Inr r)"

subsection \<open>The scalar Date\<close>

text \<open>
  A value of a query variable as \<open>parseValue\<close> receives it (a whole number, a string
  or a boolean), and a literal of the query text as \<open>parseLiteral\<close> receives it: the
  node of an integer literal holds the literal's text in \<open>value\<close>, a string, as every
  node of graphql-js does.
\<close>

datatype jsvalue = JNumber int | JString string | JBoolean bool

datatype ast =
    IntValue string
  | FloatValue string
  | StringValue string
  | BooleanValue bool
  | NullValue
  | EnumValue string

text \<open>
  \<open>new Date(value)\<close>. A number is a time value when it is within 8.64e15
  milliseconds of the epoch (\<open>TimeClip\<close>); a boolean counts as 1 or 0; a string is
  parsed by \<open>Date.parse\<close>. The date-time string format of ECMAScript has a year-only
  form, four digits, which is the start of that year in UTC (\<open>DayFromYear\<close>); what
  any other string parses to (the longer forms of that format, and whatever else an
  implementation accepts) is the parameter \<open>parse_other\<close>.
\<close>

definition TimeClip :: "int \<Rightarrow> jsdate" where
  "TimeClip t = (if \<bar>t\<bar> > 8640000000000000 then InvalidDate else Date t)"

definition DayFromYear :: "int \<Rightarrow> int" where
  "DayFromYear y =
     365 * (y - 1970) + (y - 1969) div 4 - (y - 1901) div 100 + (y - 1601) div 400"

definition msPerDay :: int where
  "msPerDay = 86400000"

definition is_digit :: "char \<Rightarrow> bool" where
  "is_digit c = (CHR ''0'' \<le> c \<and> c \<le> CHR ''9'')"

definition digits_value :: "string \<Rightarrow> int" where
  "digits_value s = foldl (\<lambda>n c. 10 * n + (of_char c - 48)) 0 s"

definition Date_parse :: "(string \<Rightarrow> jsdate) \<Rightarrow> string \<Rightarrow> jsdate" where
  "Date_parse parse_other s =
     (if length s = 4 \<and> list_all is_digit s
      then Date (msPerDay * DayFromYear (digits_value s))
      else parse_other s)"

fun new_Date :: "(string \<Rightarrow> jsdate) \<Rightarrow> jsvalue \<Rightarrow> jsdate" where
  "new_Date parse_other (JNumber n) = TimeClip n"
| "new_Date parse_other (JString s) = Date_parse parse_other s"
| "new_Date parse_other (JBoolean b) = Date (if b then 1 else 0)"

text \<open>\<open>value.getTime()\<close>; \<open>None\<close> is \<open>NaN\<close>.\<close>

fun getTime :: "jsdate \<Rightarrow> int option" where
  "getTime (Date t) = Some t"
| "getTime InvalidDate = None"

text \<open>
  \<^verbatim>\<open>parseValue(value) { return new Date(value); }
  serialize(value) { return value.getTime(); }
  parseLiteral(ast) { if (ast.kind === Kind.INT) { return new Date(ast.value); }
                      return null; }\<close>
\<close>

definition parseValue :: "(string \<Rightarrow> jsdate) \<Rightarrow> jsvalue \<Rightarrow> jsdate" where
  "parseValue parse_other v = new_Date parse_other v"

definition serialize :: "jsdate \<Rightarrow> int option" where
  "serialize d = getTime d"

definition parseLiteral :: "(string \<Rightarrow> jsdate) \<Rightarrow> ast \<Rightarrow> jsdate option" where
  "parseLiteral parse_other a =
     (case a of
        IntValue v \<Rightarrow> Some (new_Date parse_other (JString v))
      | _ \<Rightarrow> None)"

subsection \<open>A collection to run the operations on\<close>

text \<open>
  Three documents: one open, one completed with a priority below 1 (as \<open>create\<close>
  can leave it), one whose optional fields hold \<open>null\<close>; and the identifier of a
  fourth that the collection does not hold.
\<close>

definition todo_a :: todo where
  "todo_a = \<lparr>todo_id = ''5c9a1b2c3d4e5f6a7b8c9d01'', description = ''buy milk'', createdAt = Some 1000,
             completed = Some False, priority = Some 3\<rparr>"

definition todo_b :: todo where
  "todo_b = \<lparr>todo_id = ''5c9a1b2c3d4e5f6a7b8c9d02'', description = ''call bob'', createdAt = Some 500,
             completed = Some True, priority = Some (- 2)\<rparr>"

definition todo_c :: todo where
  "todo_c = \<lparr>todo_id = ''5c9a1b2c3d4e5f6a7b8c9d03'', description = ''apples'', createdAt = None,
             completed = None, priority = Some 1\<rparr>"

definition todos :: collection where
  "todos = [todo_a, todo_b, todo_c]"

definition new_id :: string where
  "new_id = ''5c9a1b2c3d4e5f6a7b8c9d04''"

section \<open>Properties of the storage model\<close>


lemma update_first_present:
  "findById ts i = Some t \<Longrightarrow>
     \<exists>ts'. update_first i u ts = (Some (apply_update u t), ts')
          \<and> findById ts' i = Some (apply_update u t)
          \<and> map todo_id ts' = map todo_id ts"
proof (induction ts)
  case Nil
  then show ?case by (simp add: findById_def)
next
  case (Cons a ts)
  show ?case
  proof (cases "todo_id a = i")
    case True
    with Cons.prems have "a = t" by (simp add: findById_def)
    with True show ?thesis by (simp add: findById_def apply_update_def)
  next
    case False
    with Cons.prems have "findById ts i = Some t" by (simp add: findById_def)
    from Cons.IH [OF this] obtain ts' where
      "update_first i u ts = (Some (apply_update u t), ts')"
      "findById ts' i = Some (apply_update u t)"
      "map todo_id ts' = map todo_id ts" by blast
    with False show ?thesis by (simp add: findById_def)
  qed
qed




lemma mset_insort_by: "mset (insort_by le x xs) = add_mset x (mset xs)"
  by (induction xs) auto

lemma mset_sort_by: "mset (sort_by le xs) = mset xs"
  by (induction xs) (simp_all add: sort_by_def mset_insort_by)

lemma set_insort_by: "set (insort_by le x xs) = insert x (set xs)"
  by (induction xs) auto

lemma sorted_insort_by:
  assumes total: "\<And>a b. le a b \<or> le b a" and trans: "\<And>a b c. le a b \<Longrightarrow> le b c \<Longrightarrow> le a c"
  shows "sorted_wrt le xs \<Longrightarrow> sorted_wrt le (insort_by le x xs)"
proof (induction xs)
  case Nil
  then show ?case by simp
next
  case (Cons y ys)
  show ?case
  proof (cases "le x y")
    case True
    with Cons.prems trans show ?thesis by auto
  next
    case False
    with total have "le y x" by blast
    with Cons False show ?thesis by (auto simp: set_insort_by)
  qed
qed

lemma sorted_sort_by:
  assumes total: "\<And>a b. le a b \<or> le b a" and trans: "\<And>a b c. le a b \<Longrightarrow> le b c \<Longrightarrow> le a c"
  shows "sorted_wrt le (sort_by le xs)"
proof (induction xs)
  case Nil
  then show ?case by (simp add: sort_by_def)
next
  case (Cons x xs)
  have "sort_by le (x # xs) = insort_by le x (sort_by le xs)" by (simp add: sort_by_def)
  with Cons sorted_insort_by [of le, OF total trans] show ?case by simp
qed

lemma bson_le_total: "bson_le a b \<or> bson_le b a"
  by (cases a; cases b) auto

lemma bson_le_trans: "bson_le a b \<Longrightarrow> bson_le b c \<Longrightarrow> bson_le a c"
  by (cases a; cases b; cases c) (auto split: if_splits)

lemma before_total: "before f dir a b \<or> before f dir b a"
  using bson_le_total by (cases dir) (auto simp: before_def)

lemma before_trans: "before f dir a b \<Longrightarrow> before f dir b c \<Longrightarrow> before f dir a c"
  using bson_le_trans by (cases dir) (auto simp: before_def)

lemma find_docs_mset:
  "find_docs coll flt srt = Inr r \<Longrightarrow> mset r = mset (filter (matches flt) coll)"
  by (auto simp: find_docs_def mset_sort_by split: option.splits find_options.splits)

lemma todosList_find_docs:
  "todosList coll s ord c = Inr r \<Longrightarrow>
     find_docs coll (case c of Val b \<Rightarrow> Some b | _ \<Rightarrow> None)
       (sort_option s (default ord ''ASC'')) = Inr r"
  by (simp add: todosList_def Let_def split: sum.splits)


lemma sort_direction_valid:
  "ord \<in> {Undefined, Val ''ASC'', Val ''DESC''} \<Longrightarrow>
     sort_direction (default ord ''ASC'') \<noteq> None"
  by (auto simp: sort_direction_def)

lemma matches_Some: "matches (Some b) = (\<lambda>t. completed t = Some b)"
  by (rule ext) (simp add: matches_def)

lemma matches_None: "matches None = (\<lambda>t. True)"
  by (rule ext) (simp add: matches_def)

lemma todosList_unsorted:
  "todosList coll Undefined ord c =
     Inr (filter (matches (case c of Val b \<Rightarrow> Some b | _ \<Rightarrow> None)) coll)"
  by (simp add: todosList_def find_docs_def sort_option_def)

lemma todosList_returns:
  assumes "ord \<in> {Undefined, Val ''ASC'', Val ''DESC''}" and "s \<noteq> Val []"
  shows "\<exists>r. todosList coll s ord c = Inr r"
  using sort_direction_valid [OF assms(1)] assms(2)
  by (auto simp: todosList_def find_docs_def sort_option_def Let_def
        split: option.splits arg.splits if_splits)

lemma findById_append_new:
  "todo_id t \<notin> set (map todo_id coll) \<Longrightarrow> findById (coll @ [t]) (todo_id t) = Some t"
  by (induction coll) (auto simp: findById_def)

lemma save_fresh:
  assumes "oid \<notin> set (map todo_id coll)" and "castDate c = Inr c'"
  shows "save coll oid d c b p =
           Inr (\<lparr>todo_id = oid, description = d, createdAt = c', completed = b, priority = p\<rparr>,
                coll @ [\<lparr>todo_id = oid, description = d, createdAt = c', completed = b,
                         priority = p\<rparr>])"
  using assms by (simp add: save_def Let_def)

lemma castDate_default:
  assumes "c \<noteq> Val InvalidDate"
  shows "\<exists>c'. castDate (default c (Date now)) = Inr c' \<and> (c = Undefined \<longrightarrow> c' = Some now)"
proof (cases c)
  case Undefined
  then show ?thesis by (simp add: castDate_def)
next
  case Null
  then show ?thesis by (simp add: castDate_def)
next
  case (Val x)
  with assms show ?thesis by (cases x) (simp_all add: castDate_def)
qed

lemma sorted_before: "sorted_wrt (before f dir) (sort_by (before f dir) xs)"
  by (rule sorted_sort_by) (rule before_total, rule before_trans)

lemma todosList_sort:
  assumes "f \<noteq> []" and "sort_direction (default ord ''ASC'') = Some dir"
  shows "todosList coll (Val f) ord c
           = Inr (sort_by (before f dir)
                    (filter (matches (case c of Val b \<Rightarrow> Some b | _ \<Rightarrow> None)) coll))"
  using assms by (simp add: todosList_def find_docs_def sort_option_def)

lemma update_first_ids: "map todo_id (snd (update_first i u ts)) = map todo_id ts"
  by (induction ts) (auto simp: apply_update_def split: prod.splits)

lemma remove_first_sublist: "set (snd (remove_first i ts)) \<subseteq> set ts"
  by (induction ts) (auto split: prod.splits)

lemma remove_first_distinct:
  "distinct (map todo_id ts) \<Longrightarrow> distinct (map todo_id (snd (remove_first i ts)))"
proof (induction ts)
  case Nil
  then show ?case by simp
next
  case (Cons a ts)
  show ?case
  proof (cases "todo_id a = i")
    case True
    with Cons.prems show ?thesis by simp
  next
    case False
    obtain n ts' where r: "remove_first i ts = (n, ts')" by (cases "remove_first i ts")
    with remove_first_sublist [of i ts] have "set ts' \<subseteq> set ts" by simp
    with Cons.prems have "todo_id a \<notin> todo_id ` set ts'" by auto
    moreover from Cons r have "distinct (map todo_id ts')" by simp
    ultimately show ?thesis using False r by simp
  qed
qed

lemma update_keeps_distinct:
  assumes "distinct (map todo_id coll)" and "update coll i d p = Inr (r, coll')"
  shows "distinct (map todo_id coll')"
proof -
  let ?u = "\<lparr>set_description = Some d, set_completed = None,
             set_priority = Some (validPriority (default p 1))\<rparr>"
  from assms(2) obtain oid where "update_first oid ?u coll = (r, coll')"
    by (auto simp: update_def findOneAndUpdate_def split: sum.splits)
  with update_first_ids [of oid ?u coll] have "map todo_id coll' = map todo_id coll" by simp
  with assms(1) show ?thesis by simp
qed

lemma complete_keeps_distinct:
  assumes "distinct (map todo_id coll)" and "complete coll i = Inr (r, coll')"
  shows "distinct (map todo_id coll')"
proof -
  let ?u = "\<lparr>set_description = None, set_completed = Some True, set_priority = None\<rparr>"
  from assms(2) obtain oid where "update_first oid ?u coll = (r, coll')"
    by (auto simp: complete_def findOneAndUpdate_def split: sum.splits)
  with update_first_ids [of oid ?u coll] have "map todo_id coll' = map todo_id coll" by simp
  with assms(1) show ?thesis by simp
qed

lemma delete_keeps_distinct:
  assumes "distinct (map todo_id coll)" and "delete coll i = Inr (b, coll')"
  shows "distinct (map todo_id coll')"
proof -
  from assms(2) have "\<exists>oid. coll' = snd (remove_first oid coll)"
    by (auto simp: delete_def deleteOne_def split: sum.splits prod.splits)
       (metis snd_conv)+
  then obtain oid where "coll' = snd (remove_first oid coll)" by blast
  with remove_first_distinct [OF assms(1), of oid] show ?thesis by simp
qed

lemma create_keeps_distinct:
  "distinct (map todo_id coll) \<Longrightarrow> create coll now oid d c b p = Inr (t, coll') \<Longrightarrow>
     distinct (map todo_id coll')"
  by (auto simp: create_def save_def Let_def split: sum.splits if_splits)

lemma serialize_Date: "serialize (Date t) = Some t"
  by (simp add: serialize_def)

lemma parseValue_number:
  "\<bar>n\<bar> \<le> 8640000000000000 \<Longrightarrow> serialize (parseValue parse_other (JNumber n)) = Some n"
  by (simp add: parseValue_def serialize_def TimeClip_def)

lemma parseLiteral_not_int:
  "parseLiteral parse_other (StringValue s) = None"
  by (simp add: parseLiteral_def)

lemmas todos_defs = todos_def todo_a_def todo_b_def todo_c_def

lemmas cast_defs = castObjectId_def is_hex_digit_def hex_value_def hex_digit_def toHex_def

text \<open>
  The cast at work: an identifier in lower case and in upper case, a string of 12
  characters, and two strings that are no identifier.
\<close>

lemma castObjectId_lower:
  "castObjectId ''5c9a1b2c3d4e5f6a7b8c9d01'' = Inr ''5c9a1b2c3d4e5f6a7b8c9d01''"
  "castObjectId ''5c9a1b2c3d4e5f6a7b8c9d02'' = Inr ''5c9a1b2c3d4e5f6a7b8c9d02''"
  "castObjectId new_id = Inr new_id"
  by (simp_all add: cast_defs new_id_def)

lemma castObjectId_upper:
  "castObjectId ''5C9A1B2C3D4E5F6A7B8C9D02'' = Inr ''5c9a1b2c3d4e5f6a7b8c9d02''"
  by (simp add: cast_defs)

lemma castObjectId_bytes:
  "castObjectId ''hello world!'' = Inr ''68656c6c6f20776f726c6421''"
  by (simp add: cast_defs)


lemma todosList_empty_sortBy:
  "todosList coll (Val []) ord c
     = Inl (ApolloError (''Options must be an object, got '' @ [CHR 0x22] @ [CHR 0x22]))"
  by (simp add: todosList_def find_docs_def sort_option_def)

section \<open>The claims\<close>

text \<open>
  C1. An \<open>update\<close> of an existing identifier with a priority that is zero or
  negative stores and returns a Todo of priority 1; with a positive priority it stores
  and returns that priority. The call succeeds in both cases: the priority is
  replaced, never refused.
\<close>

theorem update_coerces_priority:
  assumes "castObjectId i = Inr oid" and "findById coll oid = Some t"
  shows "\<exists>t' coll'. update coll i d (Val p) = Inr (Some t', coll')
           \<and> findById coll' oid = Some t'
           \<and> (p \<le> 0 \<longrightarrow> priority t' = Some 1)
           \<and> (0 < p \<longrightarrow> priority t' = Some p)"
proof -
  let ?u = "\<lparr>set_description = Some d, set_completed = None,
             set_priority = Some (validPriority (default (Val p) 1))\<rparr>"
  from update_first_present [OF assms(2), of ?u] obtain coll' where
    "update_first oid ?u coll = (Some (apply_update ?u t), coll')"
    "findById coll' oid = Some (apply_update ?u t)" by blast
  with assms(1) show ?thesis
    by (simp add: update_def findOneAndUpdate_def apply_update_def validPriority_def)
qed

theorem update_coerces_priority_witness:
  "castObjectId ''5C9A1B2C3D4E5F6A7B8C9D02'' = Inr ''5c9a1b2c3d4e5f6a7b8c9d02''
   \<and> castObjectId ''5c9a1b2c3d4e5f6a7b8c9d02'' = Inr ''5c9a1b2c3d4e5f6a7b8c9d02''
   \<and> findById todos ''5c9a1b2c3d4e5f6a7b8c9d02'' = Some todo_b
   \<and> (\<exists>t' coll'. update todos ''5C9A1B2C3D4E5F6A7B8C9D02'' ''call bob today'' (Val (- 4))
                    = Inr (Some t', coll')
          \<and> findById coll' ''5c9a1b2c3d4e5f6a7b8c9d02'' = Some t' \<and> priority t' = Some 1)
   \<and> (\<exists>t' coll'. update todos ''5c9a1b2c3d4e5f6a7b8c9d02'' ''call bob today'' (Val 7)
                    = Inr (Some t', coll')
          \<and> findById coll' ''5c9a1b2c3d4e5f6a7b8c9d02'' = Some t' \<and> priority t' = Some 7)"
proof -
  have h: "findById todos ''5c9a1b2c3d4e5f6a7b8c9d02'' = Some todo_b"
    by (simp add: findById_def todos_defs)
  from update_coerces_priority [OF castObjectId_upper h, of "''call bob today''" "- 4"]
       update_coerces_priority [OF castObjectId_lower(2) h, of "''call bob today''" 7]
       h castObjectId_upper castObjectId_lower(2)
  show ?thesis by simp
qed







text \<open>
  C4. For a list that is unsorted or sorted by a field of a Todo, in an order that is
  ASC, DESC or left out: with \<open>completed = true\<close> the list holds exactly the
  documents whose field \<open>completed\<close> is true, with \<open>completed = false\<close> exactly those
  whose field is false, and with the argument left out every document: as many times
  as the collection holds them whatever the sort, and in the order of the collection
  when no sort is asked for.
\<close>

theorem todosList_completed_filter:
  assumes "ord \<in> {Undefined, Val ''ASC'', Val ''DESC''}"
    and "s \<in> {Undefined, Val ''_id'', Val ''description'', Val ''createdAt'',
               Val ''completed'', Val ''priority''}"
  shows "(\<exists>r. todosList coll s ord (Val True) = Inr r
              \<and> mset r = mset (filter (\<lambda>t. completed t = Some True) coll))
       \<and> (\<exists>r. todosList coll s ord (Val False) = Inr r
              \<and> mset r = mset (filter (\<lambda>t. completed t = Some False) coll))
       \<and> (\<exists>r. todosList coll s ord Undefined = Inr r \<and> mset r = mset coll)
       \<and> todosList coll Undefined ord (Val True)
             = Inr (filter (\<lambda>t. completed t = Some True) coll)
       \<and> todosList coll Undefined ord (Val False)
             = Inr (filter (\<lambda>t. completed t = Some False) coll)
       \<and> todosList coll Undefined ord Undefined = Inr coll"
proof -
  from assms(2) have s: "s \<noteq> Val []" by auto
  have *: "\<exists>r. todosList coll s ord c = Inr r
             \<and> mset r = mset (filter (matches (case c of Val b \<Rightarrow> Some b | _ \<Rightarrow> None)) coll)" for c
  proof -
    from todosList_returns [OF assms(1) s] obtain r where
      r: "todosList coll s ord c = Inr r" by blast
    from find_docs_mset [OF todosList_find_docs [OF r]] r show ?thesis by blast
  qed
  from * [of "Val True"] have 1: "\<exists>r. todosList coll s ord (Val True) = Inr r
              \<and> mset r = mset (filter (\<lambda>t. completed t = Some True) coll)"
    by (simp add: matches_Some)
  from * [of "Val False"] have 2: "\<exists>r. todosList coll s ord (Val False) = Inr r
              \<and> mset r = mset (filter (\<lambda>t. completed t = Some False) coll)"
    by (simp add: matches_Some)
  from * [of Undefined] have 3: "\<exists>r. todosList coll s ord Undefined = Inr r \<and> mset r = mset coll"
    by (simp add: matches_None)
  have 4: "todosList coll Undefined ord (Val b) = Inr (filter (\<lambda>t. completed t = Some b) coll)" for b
    by (simp add: todosList_unsorted matches_Some)
  have 5: "todosList coll Undefined ord Undefined = Inr coll"
    by (simp add: todosList_unsorted matches_None)
  from 1 2 3 4 5 show ?thesis by blast
qed

theorem todosList_completed_filter_witness:
  "Val ''DESC'' \<in> {Undefined, Val ''ASC'', Val ''DESC''}
   \<and> Val ''priority'' \<in> {Undefined, Val ''_id'', Val ''description'', Val ''createdAt'',
                            Val ''completed'', Val ''priority''}
   \<and> (\<exists>r. todosList todos (Val ''priority'') (Val ''DESC'') (Val False) = Inr r
          \<and> mset r = mset [todo_a])
   \<and> todosList todos (Val ''priority'') (Val ''DESC'') Undefined = Inr [todo_a, todo_c, todo_b]
   \<and> todosList todos Undefined (Val ''DESC'') (Val True) = Inr [todo_b]
   \<and> todosList todos Undefined (Val ''DESC'') Undefined = Inr [todo_a, todo_b, todo_c]"
proof -
  have h: "Val ''DESC'' \<in> {Undefined, Val ''ASC'', Val ''DESC''}" by simp
  have g: "Val ''priority'' \<in> {Undefined, Val ''_id'', Val ''description'', Val ''createdAt'',
                            Val ''completed'', Val ''priority''}" by simp
  have f: "filter (\<lambda>t. completed t = Some False) todos = [todo_a]"
          "filter (\<lambda>t. completed t = Some True) todos = [todo_b]"
    by (simp_all add: todos_defs)
  have s: "todosList todos (Val ''priority'') (Val ''DESC'') Undefined
             = Inr [todo_a, todo_c, todo_b]"
    by (simp add: todosList_def find_docs_def sort_option_def sort_direction_def matches_def
          sort_by_def before_def field_value_def todos_defs)
  from todosList_completed_filter [OF h g, of todos] h g f s
  show ?thesis by (simp add: todos_def)
qed

text \<open>
  C5. A \<open>create\<close> call whose new identifier is not yet in the collection and whose
  date, if given, is a valid one succeeds, and the arguments left out take their
  defaults: no \<open>completed\<close> argument stores \<open>completed = false\<close>, no \<open>priority\<close>
  argument stores \<open>priority = 1\<close>, no \<open>createdAt\<close> argument stores the time of the
  call. The Todo returned is the document that was stored, with its identifier.
\<close>

theorem create_defaults:
  assumes "oid \<notin> set (map todo_id coll)" and "c \<noteq> Val InvalidDate"
  shows "\<exists>t. create coll now oid d c b p = Inr (t, coll @ [t])
            \<and> findById (coll @ [t]) oid = Some t
            \<and> todo_id t = oid \<and> description t = d
            \<and> (b = Undefined \<longrightarrow> completed t = Some False)
            \<and> (p = Undefined \<longrightarrow> priority t = Some 1)
            \<and> (c = Undefined \<longrightarrow> createdAt t = Some now)"
proof -
  from castDate_default [OF assms(2), of now] obtain c' where
    c': "castDate (default c (Date now)) = Inr c'" and n: "c = Undefined \<longrightarrow> c' = Some now"
    by blast
  let ?t = "\<lparr>todo_id = oid, description = d, createdAt = c', completed = default b False,
             priority = default p 1\<rparr>"
  from save_fresh [OF assms(1) c']
  have "create coll now oid d c b p = Inr (?t, coll @ [?t])" by (simp add: create_def)
  moreover from findById_append_new [of ?t coll] assms(1)
  have "findById (coll @ [?t]) oid = Some ?t" by simp
  ultimately show ?thesis using n by (intro exI [of _ ?t]) auto
qed

theorem create_defaults_witness:
  "new_id \<notin> set (map todo_id todos) \<and> (Undefined :: jsdate arg) \<noteq> Val InvalidDate
   \<and> create todos 1700000000000 new_id ''buy milk'' Undefined Undefined Undefined
       = Inr (\<lparr>todo_id = new_id, description = ''buy milk'', createdAt = Some 1700000000000,
               completed = Some False, priority = Some 1\<rparr>,
              todos @ [\<lparr>todo_id = new_id, description = ''buy milk'',
                       createdAt = Some 1700000000000, completed = Some False,
                       priority = Some 1\<rparr>])"
proof -
  have h: "new_id \<notin> set (map todo_id todos)" by (simp add: todos_defs new_id_def)
  have g: "(Undefined :: jsdate arg) \<noteq> Val InvalidDate" by simp
  from create_defaults [OF h g, of 1700000000000 "''buy milk''" Undefined Undefined]
  obtain t where "create todos 1700000000000 new_id ''buy milk'' Undefined Undefined Undefined
       = Inr (t, todos @ [t])" "todo_id t = new_id" "description t = ''buy milk''"
       "completed t = Some False" "priority t = Some 1" "createdAt t = Some 1700000000000"
    by auto
  with h g show ?thesis by (cases t) simp
qed

text \<open>
  C9. \<open>create\<close> with a priority argument stores that very priority, also when it is
  zero or negative: nothing is coerced, and a document of priority below 1 exists
  after the call.
\<close>

theorem create_keeps_priority:
  assumes "oid \<notin> set (map todo_id coll)" and "c \<noteq> Val InvalidDate"
  shows "\<exists>t. create coll now oid d c b (Val p) = Inr (t, coll @ [t])
            \<and> findById (coll @ [t]) oid = Some t
            \<and> priority t = Some p"
proof -
  from castDate_default [OF assms(2), of now] obtain c' where
    c': "castDate (default c (Date now)) = Inr c'" by blast
  let ?t = "\<lparr>todo_id = oid, description = d, createdAt = c', completed = default b False,
             priority = default (Val p) 1\<rparr>"
  from save_fresh [OF assms(1) c']
  have "create coll now oid d c b (Val p) = Inr (?t, coll @ [?t])" by (simp add: create_def)
  moreover from findById_append_new [of ?t coll] assms(1)
  have "findById (coll @ [?t]) oid = Some ?t" by simp
  ultimately show ?thesis by (intro exI [of _ ?t]) auto
qed

theorem create_keeps_priority_witness:
  "new_id \<notin> set (map todo_id todos) \<and> (Undefined :: jsdate arg) \<noteq> Val InvalidDate
   \<and> (\<exists>t. create todos 1700000000000 new_id ''later'' Undefined Undefined (Val (- 5))
            = Inr (t, todos @ [t])
          \<and> findById (todos @ [t]) new_id = Some t
          \<and> priority t = Some (- 5) \<and> the (priority t) < 1)
   \<and> (\<exists>t. create todos 1700000000000 new_id ''later'' Undefined Undefined (Val 0)
            = Inr (t, todos @ [t])
          \<and> priority t = Some 0)"
proof -
  have h: "new_id \<notin> set (map todo_id todos)" by (simp add: todos_defs new_id_def)
  have g: "(Undefined :: jsdate arg) \<noteq> Val InvalidDate" by simp
  from create_keeps_priority [OF h g, of 1700000000000 "''later''" Undefined "- 5"]
       create_keeps_priority [OF h g, of 1700000000000 "''later''" Undefined 0] h g
  show ?thesis by auto
qed

text \<open>
  C6. \<open>complete\<close> on an existing identifier returns and stores a Todo whose
  \<open>completed\<close> is true and whose identifier, description, date of creation and
  priority are those the document had before the call.
\<close>

theorem complete_frame:
  assumes "castObjectId i = Inr oid" and "findById coll oid = Some t"
  shows "\<exists>t' coll'. complete coll i = Inr (Some t', coll')
           \<and> findById coll' oid = Some t'
           \<and> completed t' = Some True
           \<and> todo_id t' = todo_id t \<and> description t' = description t
           \<and> createdAt t' = createdAt t \<and> priority t' = priority t"
proof -
  let ?u = "\<lparr>set_description = None, set_completed = Some True, set_priority = None\<rparr>"
  from update_first_present [OF assms(2), of ?u] obtain coll' where
    "update_first oid ?u coll = (Some (apply_update ?u t), coll')"
    "findById coll' oid = Some (apply_update ?u t)" by blast
  with assms(1) show ?thesis
    by (simp add: complete_def findOneAndUpdate_def apply_update_def)
qed

theorem complete_frame_witness:
  "castObjectId ''5c9a1b2c3d4e5f6a7b8c9d01'' = Inr ''5c9a1b2c3d4e5f6a7b8c9d01''
   \<and> findById todos ''5c9a1b2c3d4e5f6a7b8c9d01'' = Some todo_a
   \<and> complete todos ''5c9a1b2c3d4e5f6a7b8c9d01''
       = Inr (Some (todo_a\<lparr>completed := Some True\<rparr>),
              [todo_a\<lparr>completed := Some True\<rparr>, todo_b, todo_c])"
proof -
  have h: "findById todos ''5c9a1b2c3d4e5f6a7b8c9d01'' = Some todo_a"
    by (simp add: findById_def todos_defs)
  have "complete todos ''5c9a1b2c3d4e5f6a7b8c9d01''
       = Inr (Some (todo_a\<lparr>completed := Some True\<rparr>),
              [todo_a\<lparr>completed := Some True\<rparr>, todo_b, todo_c])"
    using castObjectId_lower(1)
    by (simp add: complete_def findOneAndUpdate_def apply_update_def todos_defs)
  with complete_frame [OF castObjectId_lower(1) h] h castObjectId_lower(1)
  show ?thesis by simp
qed

text \<open>
  C10. \<open>update\<close> on an existing identifier with the priority argument left out
  stores priority 1, whatever priority the document had before: leaving the
  argument out does not leave the field as it was.
\<close>

theorem update_omitted_priority:
  assumes "castObjectId i = Inr oid" and "findById coll oid = Some t"
  shows "\<exists>t' coll'. update coll i d Undefined = Inr (Some t', coll')
           \<and> findById coll' oid = Some t'
           \<and> priority t' = Some 1"
proof -
  let ?u = "\<lparr>set_description = Some d, set_completed = None,
             set_priority = Some (validPriority (default Undefined 1))\<rparr>"
  from update_first_present [OF assms(2), of ?u] obtain coll' where
    "update_first oid ?u coll = (Some (apply_update ?u t), coll')"
    "findById coll' oid = Some (apply_update ?u t)" by blast
  with assms(1) show ?thesis
    by (simp add: update_def findOneAndUpdate_def apply_update_def validPriority_def)
qed

theorem update_omitted_priority_witness:
  "castObjectId ''5c9a1b2c3d4e5f6a7b8c9d01'' = Inr ''5c9a1b2c3d4e5f6a7b8c9d01''
   \<and> findById todos ''5c9a1b2c3d4e5f6a7b8c9d01'' = Some todo_a \<and> priority todo_a = Some 3
   \<and> (\<exists>t' coll'. update todos ''5c9a1b2c3d4e5f6a7b8c9d01'' ''buy oat milk'' Undefined
                    = Inr (Some t', coll')
          \<and> findById coll' ''5c9a1b2c3d4e5f6a7b8c9d01'' = Some t' \<and> priority t' = Some 1)"
proof -
  have h: "findById todos ''5c9a1b2c3d4e5f6a7b8c9d01'' = Some todo_a"
    by (simp add: findById_def todos_defs)
  from update_omitted_priority [OF castObjectId_lower(1) h, of "''buy oat milk''"]
       h castObjectId_lower(1)
  show ?thesis by (simp add: todo_a_def)
qed

text \<open>
  C7. When \<open>sortBy\<close> names a field of a Todo, the list comes sorted by the values of
  that field: ascending when \<open>order\<close> is ASC or left out, descending when it is DESC.
  When \<open>sortBy\<close> is left out, the matching documents come in the order of the
  collection, unsorted.
\<close>

theorem todosList_sorted:
  assumes "f \<in> {''_id'', ''description'', ''createdAt'', ''completed'', ''priority''}"
  shows "(ord \<in> {Undefined, Val ''ASC''} \<longrightarrow>
            (\<exists>r. todosList coll (Val f) ord c = Inr r
                \<and> sorted_wrt (\<lambda>a b. bson_le (field_value f a) (field_value f b)) r))
       \<and> (\<exists>r. todosList coll (Val f) (Val ''DESC'') c = Inr r
                \<and> sorted_wrt (\<lambda>a b. bson_le (field_value f b) (field_value f a)) r)
       \<and> todosList coll Undefined ord c
           = Inr (filter (matches (case c of Val b \<Rightarrow> Some b | _ \<Rightarrow> None)) coll)"
proof -
  from assms have f: "f \<noteq> []" by auto
  have asc: "before f Ascending = (\<lambda>a b. bson_le (field_value f a) (field_value f b))"
    by (intro ext) (simp add: before_def)
  have desc: "before f Descending = (\<lambda>a b. bson_le (field_value f b) (field_value f a))"
    by (intro ext) (simp add: before_def)
  have "sort_direction (default ord ''ASC'') = Some Ascending" if "ord \<in> {Undefined, Val ''ASC''}"
    using that by (auto simp: sort_direction_def)
  from todosList_sort [OF f this, of coll c] sorted_before [of f Ascending]
  have 1: "ord \<in> {Undefined, Val ''ASC''} \<longrightarrow>
            (\<exists>r. todosList coll (Val f) ord c = Inr r
                \<and> sorted_wrt (\<lambda>a b. bson_le (field_value f a) (field_value f b)) r)"
    by (simp add: asc)
  have "sort_direction (default (Val ''DESC'') ''ASC'') = Some Descending"
    by (simp add: sort_direction_def)
  from todosList_sort [OF f this, of coll c] sorted_before [of f Descending]
  have 2: "\<exists>r. todosList coll (Val f) (Val ''DESC'') c = Inr r
                \<and> sorted_wrt (\<lambda>a b. bson_le (field_value f b) (field_value f a)) r"
    by (simp add: desc)
  from 1 2 todosList_unsorted [of coll ord c] show ?thesis by blast
qed

theorem todosList_sorted_witness:
  "''priority'' \<in> {''_id'', ''description'', ''createdAt'', ''completed'', ''priority''}
   \<and> (Undefined :: string arg) \<in> {Undefined, Val ''ASC''}
   \<and> todosList todos (Val ''priority'') Undefined Undefined = Inr [todo_b, todo_c, todo_a]
   \<and> sorted_wrt (\<lambda>a b. bson_le (field_value ''priority'' a) (field_value ''priority'' b))
        [todo_b, todo_c, todo_a]
   \<and> todosList todos (Val ''priority'') (Val ''DESC'') Undefined = Inr [todo_a, todo_c, todo_b]
   \<and> sorted_wrt (\<lambda>a b. bson_le (field_value ''priority'' b) (field_value ''priority'' a))
        [todo_a, todo_c, todo_b]
   \<and> todosList todos Undefined Undefined Undefined = Inr todos"
proof -
  have h: "''priority'' \<in> {''_id'', ''description'', ''createdAt'', ''completed'', ''priority''}"
    by simp
  have a: "todosList todos (Val ''priority'') Undefined Undefined = Inr [todo_b, todo_c, todo_a]"
    by (simp add: todosList_def find_docs_def sort_option_def sort_direction_def matches_def
          sort_by_def before_def field_value_def todos_defs)
  have d: "todosList todos (Val ''priority'') (Val ''DESC'') Undefined
             = Inr [todo_a, todo_c, todo_b]"
    by (simp add: todosList_def find_docs_def sort_option_def sort_direction_def matches_def
          sort_by_def before_def field_value_def todos_defs)
  from todosList_sorted [OF h, of Undefined todos Undefined] a d h
  show ?thesis by (simp add: matches_None)
qed


text \<open>
  C8. \<open>serialize\<close> gives the time value of a date, in milliseconds since the epoch,
  and \<open>parseValue\<close> turns a number into the date with that time value. An integer
  literal is not read that way: \<open>parseLiteral\<close> hands the text of the literal to
  \<open>new Date\<close>, which parses it as a date string. The literal \<open>2019\<close> becomes the
  first instant of the year 2019, which serializes to 1546300800000, while the same
  integer given through a variable becomes the date 2019 milliseconds after the epoch.
\<close>

theorem parseLiteral_reads_year:
  "parseLiteral parse_other (IntValue ''2019'') = Some (Date 1546300800000)
   \<and> serialize (Date 1546300800000) = Some 1546300800000
   \<and> parseValue parse_other (JNumber 2019) = Date 2019"
  by (simp add: parseLiteral_def parseValue_def serialize_def Date_parse_def is_digit_def
        digits_value_def DayFromYear_def msPerDay_def TimeClip_def)

end
